theory Spec2Isabelle
  imports Complex_Main "HOL-Library.Multiset"
begin

section \<open>The scoring engine of the horse racing predictor\<close>

text \<open>
  The theory embeds the class \<open>HorseRacingPredictor\<close> of \<open>horse_racing_app.py\<close>.
  A horse is the dictionary the form builds; every key is read with
  \<open>horse_data.get(key, default)\<close>, so a key may be absent: each field is an option.
  Python floats are modelled by real numbers with exact arithmetic, Python integers by
  \<open>int\<close>. Every raise of the source is a value of \<open>py_error\<close>.
\<close>

datatype py_error = ZeroDivisionError | IndexError | KeyError string

record horse_data =
  name :: "string option"
  beyer_speed_figure :: "int option"
  recent_beyer_figures :: "int list option"
  recent_finishes :: "int list option"
  race_class :: "string option"
  horse_class :: "string option"
  jockey_win_percentage :: "real option"
  trainer_win_percentage :: "real option"
  jockey_trainer_combo_win_pct :: "real option"
  post_position :: "int option"
  field_size :: "int option"
  race_distance :: "real option"
  track_condition :: "string option"

text \<open>The attributes that \<open>__init__\<close> sets on \<open>self\<close>.\<close>

record predictor =
  weights :: "string \<rightharpoonup> real"
  track_variants :: "string \<rightharpoonup> real"
  post_position_weights :: "int \<rightharpoonup> real"

definition init :: predictor where
  "init =
    \<lparr> weights = map_of
        [(''speed_figure'', 0.25), (''recent_form'', 0.20), (''class_level'', 0.15),
         (''jockey_skill'', 0.12), (''trainer_stats'', 0.12), (''post_position'', 0.08),
         (''track_condition'', 0.05), (''distance_fitness'', 0.03)],
      track_variants = map_of
        [(''fast'', 1.0), (''good'', 1.02), (''sloppy'', 1.05),
         (''muddy'', 1.08), (''turf_firm'', 0.98), (''turf_good'', 1.0)],
      post_position_weights = map_of
        [(1, 0.85), (2, 0.90), (3, 0.92), (4, 0.95), (5, 0.97),
         (6, 1.0), (7, 0.98), (8, 0.95), (9, 0.92), (10, 0.90),
         (11, 0.85), (12, 0.80), (13, 0.75), (14, 0.70), (15, 0.65)] \<rparr>"

subsection \<open>Python primitives\<close>

text \<open>\<open>d.get(k, default)\<close>, applied to the result of the lookup.\<close>

definition dict_get :: "'a option \<Rightarrow> 'a \<Rightarrow> 'a" where
  "dict_get v dflt = (case v of None \<Rightarrow> dflt | Some x \<Rightarrow> x)"

text \<open>\<open>d[k]\<close> raises \<open>KeyError\<close> on an absent key.\<close>

definition subscript :: "(string \<rightharpoonup> 'a) \<Rightarrow> string \<Rightarrow> py_error + 'a" where
  "subscript d k = (case d k of None \<Rightarrow> Inl (KeyError k) | Some x \<Rightarrow> Inr x)"

text \<open>\<open>xs[i]\<close>: a negative index counts from the end, an index out of range raises.\<close>

definition py_index :: "'a list \<Rightarrow> int \<Rightarrow> py_error + 'a" where
  "py_index xs i =
    (if 0 \<le> i \<and> i < int (length xs) then Inr (xs ! nat i)
     else if i < 0 \<and> - int (length xs) \<le> i then Inr (xs ! nat (int (length xs) + i))
     else Inl IndexError)"

text \<open>\<open>a / b\<close> on integers: true division, raising on a zero divisor.\<close>

definition py_truediv :: "int \<Rightarrow> int \<Rightarrow> py_error + real" where
  "py_truediv a b = (if b = 0 then Inl ZeroDivisionError else Inr (real_of_int a / real_of_int b))"

text \<open>Sequencing of two steps, the second skipped when the first raises.\<close>

definition bind_err :: "py_error + 'a \<Rightarrow> ('a \<Rightarrow> py_error + 'b) \<Rightarrow> py_error + 'b" where
  "bind_err m f = (case m of Inl e \<Rightarrow> Inl e | Inr x \<Rightarrow> f x)"

text \<open>A loop or comprehension over a list that stops at the first raise.\<close>

fun map_err :: "('a \<Rightarrow> py_error + 'b) \<Rightarrow> 'a list \<Rightarrow> py_error + 'b list" where
  "map_err f [] = Inr []"
| "map_err f (x # xs) =
     bind_err (f x) (\<lambda>y. bind_err (map_err f xs) (\<lambda>ys. Inr (y # ys)))"

text \<open>
  \<open>round(x, ndigits)\<close>: the nearest multiple of \<open>10 ^ - ndigits\<close>, a tie going to the
  even one.
\<close>

definition round_half_even :: "real \<Rightarrow> int" where
  "round_half_even x =
    (let f = \<lfloor>x\<rfloor>; d = x - of_int f
     in if d < 1 / 2 then f else if 1 / 2 < d then f + 1 else if even f then f else f + 1)"

definition py_round :: "real \<Rightarrow> nat \<Rightarrow> real" where
  "py_round x ndigits = of_int (round_half_even (x * 10 ^ ndigits)) / 10 ^ ndigits"

subsection \<open>The sub-scores\<close>

definition calculate_speed_score :: "predictor \<Rightarrow> horse_data \<Rightarrow> py_error + real" where
  "calculate_speed_score self h =
    (let base_speed = dict_get (beyer_speed_figure h) 70;
         track_adj = dict_get (track_variants self (dict_get (track_condition h) ''fast'')) 1.0;
         distance = dict_get (race_distance h) 6.0;
         distance_factor = (if distance \<le> 6.5 then 1.0 else 0.95);
         recent_speeds = dict_get (recent_beyer_figures h) [base_speed]
     in bind_err
          (if 3 \<le> length recent_speeds then
             bind_err (py_index recent_speeds (- 1)) (\<lambda>latest.
             bind_err (py_index recent_speeds (- 3)) (\<lambda>third.
             bind_err (py_truediv (latest - third) third) (\<lambda>trend.
               Inr (1.0 + trend * 0.5))))
           else Inr 1.0)
          (\<lambda>trend_factor.
             Inr (min (real_of_int base_speed * track_adj * distance_factor * trend_factor) 120)))"

text \<open>
  The loop of \<open>calculate_form_score\<close> over \<open>enumerate(reversed(recent_finishes))\<close>;
  the state is the pair \<open>(weighted_sum, total_weight)\<close>.
\<close>

fun form_loop :: "nat \<Rightarrow> (nat \<times> int) list \<Rightarrow> real \<times> real \<Rightarrow> real \<times> real" where
  "form_loop total_races [] acc = acc"
| "form_loop total_races ((i, finish) # rest) (weighted_sum, total_weight) =
     (let weight = (real i + 1) / real total_races;
          position_score = max 0 ((10 - real_of_int finish) / 10)
      in form_loop total_races rest
           (weighted_sum + position_score * weight, total_weight + weight))"

definition calculate_form_score :: "horse_data \<Rightarrow> real" where
  "calculate_form_score h =
    (let finishes = dict_get (recent_finishes h) [5, 5, 5];
         total_races = length finishes
     in if total_races = 0 then 0.5
        else
          (case form_loop total_races (enumerate 0 (rev finishes)) (0, 0) of
             (weighted_sum, total_weight) \<Rightarrow>
               if 0 < total_weight then weighted_sum / total_weight else 0.5))"

definition class_hierarchy :: "string \<rightharpoonup> int" where
  "class_hierarchy = map_of
    [(''maiden'', 1), (''claiming'', 2), (''allowance'', 3),
     (''stakes'', 4), (''graded_stakes'', 5), (''grade_1'', 6)]"

definition calculate_class_score :: "horse_data \<Rightarrow> real" where
  "calculate_class_score h =
    (let current_class = dict_get (race_class h) ''claiming'';
         horse_cls = dict_get (horse_class h) ''claiming'';
         race_level = dict_get (class_hierarchy current_class) 2;
         horse_level = dict_get (class_hierarchy horse_cls) 2
     in if race_level < horse_level then 1.2
        else if horse_level = race_level then 1.0
        else 0.8)"

definition calculate_connection_score :: "horse_data \<Rightarrow> real \<times> real" where
  "calculate_connection_score h =
    (let jockey_win_pct = dict_get (jockey_win_percentage h) 0.10;
         trainer_win_pct = dict_get (trainer_win_percentage h) 0.12;
         jockey_score = min (jockey_win_pct / 0.25) 1.0;
         trainer_score = min (trainer_win_pct / 0.25) 1.0;
         combo_success = dict_get (jockey_trainer_combo_win_pct h) 0.10;
         combo_bonus = min (combo_success / 0.30) 0.2
     in (jockey_score + combo_bonus * 0.5, trainer_score + combo_bonus * 0.5))"

text \<open>The dictionary comprehension over \<open>range(1, 21)\<close> of the large-field branch.\<close>

definition large_field_weights :: "int \<rightharpoonup> real" where
  "large_field_weights =
     map_of (map (\<lambda>i. (i, max 0.5 (1.0 - real_of_int (i - 6) * 0.05))) [1..20])"

definition calculate_post_position_score :: "predictor \<Rightarrow> horse_data \<Rightarrow> real" where
  "calculate_post_position_score self h =
    (let post = dict_get (post_position h) 5;
         fsize = dict_get (field_size h) 10
     in if fsize \<le> 6 then 1.0
        else if fsize \<le> 10 then dict_get (post_position_weights self post) 0.90
        else dict_get (large_field_weights post) 0.60)"

subsection \<open>The composite score\<close>

definition calculate_overall_score :: "predictor \<Rightarrow> horse_data \<Rightarrow> py_error + real" where
  "calculate_overall_score self h =
    bind_err (calculate_speed_score self h) (\<lambda>speed_score.
      (let form_score = calculate_form_score h;
           class_score = calculate_class_score h;
           (jockey_score, trainer_score) = calculate_connection_score h;
           post_score = calculate_post_position_score self h
       in bind_err (subscript (weights self) ''speed_figure'') (\<lambda>w_speed.
          bind_err (subscript (weights self) ''recent_form'') (\<lambda>w_form.
          bind_err (subscript (weights self) ''class_level'') (\<lambda>w_class.
          bind_err (subscript (weights self) ''jockey_skill'') (\<lambda>w_jockey.
          bind_err (subscript (weights self) ''trainer_stats'') (\<lambda>w_trainer.
          bind_err (subscript (weights self) ''post_position'') (\<lambda>w_post.
            Inr (speed_score * w_speed +
                 form_score * 100 * w_form +
                 class_score * 100 * w_class +
                 jockey_score * 100 * w_jockey +
                 trainer_score * 100 * w_trainer +
                 post_score * 100 * w_post)))))))))"

subsection \<open>The race prediction\<close>

text \<open>
  \<open>sum(exp_scores)\<close> is never zero when \<open>predict_race\<close> calls the function: the list of
  horses is not empty there and every exponential is positive.
\<close>

definition score_to_probability :: "predictor \<Rightarrow> real \<Rightarrow> horse_data list \<Rightarrow> py_error + real" where
  "score_to_probability self score all_horses =
    bind_err (map_err (calculate_overall_score self) all_horses) (\<lambda>all_scores.
      (let exp_scores = map (\<lambda>s. exp (s / 10)) all_scores;
           exp_score = exp (score / 10)
       in Inr (exp_score / sum_list exp_scores)))"

record prediction =
  Horse :: string
  Score :: real
  Win_Probability :: real
  Beyer_Figure :: real
  Form_Score :: real
  Class_Score :: real
  Jockey_Score :: real
  Trainer_Score :: real
  Post_Advantage :: real

text \<open>The body of the loop of \<open>predict_race\<close>: the row appended for one horse.\<close>

definition predict_row :: "predictor \<Rightarrow> horse_data list \<Rightarrow> horse_data \<Rightarrow> py_error + prediction" where
  "predict_row self horses_data horse =
    bind_err (calculate_overall_score self horse) (\<lambda>score.
    bind_err (score_to_probability self score horses_data) (\<lambda>probability.
    bind_err (calculate_speed_score self horse) (\<lambda>speed.
      Inr \<lparr> Horse = dict_get (name horse) ''Unknown'',
            Score = py_round score 2,
            Win_Probability = py_round (probability * 100) 1,
            Beyer_Figure = py_round speed 1,
            Form_Score = py_round (calculate_form_score horse) 3,
            Class_Score = py_round (calculate_class_score horse) 3,
            Jockey_Score = py_round (fst (calculate_connection_score horse)) 3,
            Trainer_Score = py_round (snd (calculate_connection_score horse)) 3,
            Post_Advantage = py_round (calculate_post_position_score self horse) 3 \<rparr>)))"

text \<open>
  \<open>sort_values('Score', ascending=False)\<close> belongs to the data-frame library, called with
  its default sorting kind (quicksort). It is a parameter of \<open>predict_race\<close>; what the
  library promises of it is \<open>sorts_descending\<close>: the rows come back rearranged, in
  descending order of the key. A frame built from an empty list has no column \<open>Score\<close>,
  and sorting it raises \<open>KeyError\<close>.
\<close>

type_synonym sorter = "(prediction \<Rightarrow> real) \<Rightarrow> prediction list \<Rightarrow> prediction list"

definition sorts_descending :: "sorter \<Rightarrow> bool" where
  "sorts_descending sort_values =
    (\<forall>key rows. mset (sort_values key rows) = mset rows \<and>
       sorted_wrt (\<lambda>a b. key b \<le> key a) (sort_values key rows))"

definition predict_race :: "sorter \<Rightarrow> predictor \<Rightarrow> horse_data list \<Rightarrow> py_error + prediction list" where
  "predict_race sort_values self horses_data =
    bind_err (map_err (predict_row self horses_data) horses_data) (\<lambda>results.
      if results = [] then Inl (KeyError ''Score'')
      else
        (let results_df = sort_values Score results;
             total_prob = sum_list (map Win_Probability results_df)
         in Inr (if 0 < total_prob
                 then map (\<lambda>r. r\<lparr>Win_Probability :=
                                   py_round (Win_Probability r / total_prob * 100) 1\<rparr>) results_df
                 else results_df)))"

subsection \<open>Reference definitions\<close>

text \<open>The empty dictionary: a horse with no key at all.\<close>

definition no_fields :: horse_data where
  "no_fields = \<lparr> name = None, beyer_speed_figure = None, recent_beyer_figures = None,
     recent_finishes = None, race_class = None, horse_class = None,
     jockey_win_percentage = None, trainer_win_percentage = None,
     jockey_trainer_combo_win_pct = None, post_position = None, field_size = None,
     race_distance = None, track_condition = None \<rparr>"

text \<open>
  The ordinal table of the specification, as a function on class names: an unknown class
  ranks as claiming.
\<close>

definition class_ordinal :: "string \<Rightarrow> int" where
  "class_ordinal c =
    (if c = ''maiden'' then 1 else if c = ''claiming'' then 2
     else if c = ''allowance'' then 3 else if c = ''stakes'' then 4
     else if c = ''graded_stakes'' then 5 else if c = ''grade_1'' then 6 else 2)"

text \<open>
  The per-finish score and the weight of position \<open>i\<close> (counted from the most recent
  start) in the words of the specification.
\<close>

definition position_score :: "int \<Rightarrow> real" where
  "position_score finish = max 0 ((10 - real_of_int finish) / 10)"

definition form_weight :: "nat \<Rightarrow> nat \<Rightarrow> real" where
  "form_weight total_races i = (real i + 1) / real total_races"

text \<open>
  The record in which every absent key holds the default that the scoring functions read
  for it; \<open>all_supplied\<close> says that no key is absent.
\<close>

definition fill_defaults :: "horse_data \<Rightarrow> horse_data" where
  "fill_defaults h =
    \<lparr> name = Some (dict_get (name h) ''Unknown''),
      beyer_speed_figure = Some (dict_get (beyer_speed_figure h) 70),
      recent_beyer_figures =
        Some (dict_get (recent_beyer_figures h) [dict_get (beyer_speed_figure h) 70]),
      recent_finishes = Some (dict_get (recent_finishes h) [5, 5, 5]),
      race_class = Some (dict_get (race_class h) ''claiming''),
      horse_class = Some (dict_get (horse_class h) ''claiming''),
      jockey_win_percentage = Some (dict_get (jockey_win_percentage h) 0.10),
      trainer_win_percentage = Some (dict_get (trainer_win_percentage h) 0.12),
      jockey_trainer_combo_win_pct = Some (dict_get (jockey_trainer_combo_win_pct h) 0.10),
      post_position = Some (dict_get (post_position h) 5),
      field_size = Some (dict_get (field_size h) 10),
      race_distance = Some (dict_get (race_distance h) 6.0),
      track_condition = Some (dict_get (track_condition h) ''fast'') \<rparr>"

definition all_supplied :: "horse_data \<Rightarrow> bool" where
  "all_supplied h \<longleftrightarrow>
     name h \<noteq> None \<and> beyer_speed_figure h \<noteq> None \<and> recent_beyer_figures h \<noteq> None \<and>
     recent_finishes h \<noteq> None \<and> race_class h \<noteq> None \<and> horse_class h \<noteq> None \<and>
     jockey_win_percentage h \<noteq> None \<and> trainer_win_percentage h \<noteq> None \<and>
     jockey_trainer_combo_win_pct h \<noteq> None \<and> post_position h \<noteq> None \<and>
     field_size h \<noteq> None \<and> race_distance h \<noteq> None \<and> track_condition h \<noteq> None"

text \<open>
  The trend factor of \<open>calculate_speed_score\<close> with its two index reads resolved, and the
  condition under which its division is defined: fewer than three recent figures, or a
  third-from-last figure other than 0.
\<close>

definition trend_factor_of :: "int list \<Rightarrow> py_error + real" where
  "trend_factor_of rs =
     (if 3 \<le> length rs then
        (if rs ! (length rs - 3) = 0 then Inl ZeroDivisionError
         else Inr (1 + real_of_int (rs ! (length rs - 1) - rs ! (length rs - 3)) /
                        real_of_int (rs ! (length rs - 3)) * 0.5))
      else Inr 1)"

definition recent_speeds_of :: "horse_data \<Rightarrow> int list" where
  "recent_speeds_of h =
     dict_get (recent_beyer_figures h) [dict_get (beyer_speed_figure h) 70]"

definition trend_defined :: "horse_data \<Rightarrow> bool" where
  "trend_defined h \<longleftrightarrow>
     length (recent_speeds_of h) < 3 \<or>
     recent_speeds_of h ! (length (recent_speeds_of h) - 3) \<noteq> 0"

text \<open>
  Two functions that meet \<open>sorts_descending\<close>: the first keeps rows of equal key in their
  order, the second reverses them.
\<close>

definition sort_stable_desc :: sorter where
  "sort_stable_desc key rows = sort_key (\<lambda>r. - key r) rows"

definition sort_ties_reversed :: sorter where
  "sort_ties_reversed key rows = rev (sort_key key rows)"

text \<open>
  The probability pipeline in the words of the specification, over the list of composite
  scores: the softmax share, the percentage rounded to one decimal, and the percentage
  rescaled by the sum of the rounded ones and rounded again (left as it is when that sum is
  not positive).
\<close>

definition win_share :: "real list \<Rightarrow> real \<Rightarrow> real" where
  "win_share scores s = exp (s / 10) / (\<Sum>t\<leftarrow>scores. exp (t / 10))"

definition rounded_percent :: "real list \<Rightarrow> real \<Rightarrow> real" where
  "rounded_percent scores s = py_round (win_share scores s * 100) 1"

definition final_percent :: "real list \<Rightarrow> real \<Rightarrow> real" where
  "final_percent scores s =
     (let total = (\<Sum>t\<leftarrow>scores. rounded_percent scores t)
      in if 0 < total then py_round (rounded_percent scores s / total * 100) 1
         else rounded_percent scores s)"

text \<open>
  The row of a horse that has no field but its name, with a given win probability: every
  sub-score comes from the defaults.
\<close>

definition default_row :: "string \<Rightarrow> real \<Rightarrow> prediction" where
  "default_row n wp =
     \<lparr> Horse = n, Score = 63.22, Win_Probability = wp, Beyer_Figure = 70,
       Form_Score = 0.5, Class_Score = 1, Jockey_Score = 0.5, Trainer_Score = 0.58,
       Post_Advantage = 0.97 \<rparr>"

text \<open>A sort keeps ties when rows of equal key come back in the order they went in.\<close>

definition keeps_ties :: "sorter \<Rightarrow> bool" where
  "keeps_ties sort_values =
    (\<forall>key rows k. filter (\<lambda>r. key r = k) (sort_values key rows) = filter (\<lambda>r. key r = k) rows)"

section \<open>Properties\<close>

subsection \<open>Basic facts\<close>

lemma dict_get_Some [simp]: "dict_get (Some x) d = x"
  by (simp add: dict_get_def)

lemma dict_get_None [simp]: "dict_get None d = d"
  by (simp add: dict_get_def)

lemma bind_err_simps [simp]:
  "bind_err (Inl e) f = Inl e" "bind_err (Inr x) f = f x"
  by (simp_all add: bind_err_def)

lemma weights_init:
  "subscript (weights init) ''speed_figure'' = Inr 0.25"
  "subscript (weights init) ''recent_form'' = Inr 0.20"
  "subscript (weights init) ''class_level'' = Inr 0.15"
  "subscript (weights init) ''jockey_skill'' = Inr 0.12"
  "subscript (weights init) ''trainer_stats'' = Inr 0.12"
  "subscript (weights init) ''post_position'' = Inr 0.08"
  by (simp_all add: subscript_def init_def)

lemma speed_score_ignores_weights:
  "calculate_speed_score (self\<lparr>weights := w\<rparr>) h = calculate_speed_score self h"
  by (simp add: calculate_speed_score_def Let_def)

lemma post_score_ignores_weights:
  "calculate_post_position_score (self\<lparr>weights := w\<rparr>) h = calculate_post_position_score self h"
  by (simp add: calculate_post_position_score_def Let_def)

lemma overall_score_init:
  "calculate_overall_score init h =
     (case calculate_speed_score init h of
        Inl e \<Rightarrow> Inl e
      | Inr speed_score \<Rightarrow>
          Inr (speed_score * 0.25 +
               calculate_form_score h * 100 * 0.20 +
               calculate_class_score h * 100 * 0.15 +
               fst (calculate_connection_score h) * 100 * 0.12 +
               snd (calculate_connection_score h) * 100 * 0.12 +
               calculate_post_position_score init h * 100 * 0.08))"
  by (simp add: calculate_overall_score_def weights_init Let_def split_beta split: sum.split)

lemma overall_score_unused_weights:
  "calculate_overall_score
      (init\<lparr>weights := (weights init)(''track_condition'' := x, ''distance_fitness'' := y)\<rparr>) h =
   calculate_overall_score init h"
  by (simp add: calculate_overall_score_def speed_score_ignores_weights
      post_score_ignores_weights subscript_def)

lemma no_fields_scores:
  "calculate_speed_score init no_fields = Inr 70"
  "calculate_form_score no_fields = 0.5"
  "calculate_class_score no_fields = 1.0"
  "calculate_connection_score no_fields = (0.5, 0.58)"
  "calculate_post_position_score init no_fields = 0.97"
proof -
  show "calculate_speed_score init no_fields = Inr 70"
    by (simp add: calculate_speed_score_def no_fields_def init_def Let_def)
  show "calculate_form_score no_fields = 0.5"
    by (simp add: calculate_form_score_def no_fields_def Let_def enumerate_eq_zip)
  show "calculate_class_score no_fields = 1.0"
    by (simp add: calculate_class_score_def class_hierarchy_def no_fields_def Let_def)
  show "calculate_connection_score no_fields = (0.5, 0.58)"
    by (simp add: calculate_connection_score_def no_fields_def Let_def)
  show "calculate_post_position_score init no_fields = 0.97"
    by (simp add: calculate_post_position_score_def no_fields_def init_def Let_def)
qed

lemma no_fields_overall: "calculate_overall_score init no_fields = Inr 63.22"
  unfolding overall_score_init no_fields_scores by simp

subsection \<open>The composite score (C1)\<close>


subsection \<open>The form score (C5)\<close>

lemma form_loop_sums:
  "form_loop n (enumerate k xs) (ws, tw) =
     (ws + (\<Sum>j<length xs. position_score (xs ! j) * form_weight n (k + j)),
      tw + (\<Sum>j<length xs. form_weight n (k + j)))"
proof (induction xs arbitrary: k ws tw)
  case Nil
  then show ?case by simp
next
  case (Cons x xs)
  have step: "form_loop n (enumerate k (x # xs)) (ws, tw) =
      form_loop n (enumerate (Suc k) xs)
        (ws + position_score x * form_weight n k, tw + form_weight n k)"
    by (simp add: Let_def position_score_def form_weight_def)
  show ?case
    unfolding step Cons.IH
    by (simp add: sum.lessThan_Suc_shift add.assoc del: sum.lessThan_Suc)
qed

lemma form_weight_pos: "0 < n \<Longrightarrow> 0 < form_weight n i"
  by (simp add: form_weight_def)

lemma position_score_nonneg: "0 \<le> position_score f"
  by (simp add: position_score_def)

lemma position_score_le_one: "0 \<le> f \<Longrightarrow> position_score f \<le> 1"
  by (simp add: position_score_def)

lemma total_weight_pos:
  assumes "0 < n"
  shows "0 < (\<Sum>j<n. form_weight n j)"
proof -
  have "{..<n} \<noteq> {}" using assms by auto
  then show ?thesis
    by (intro sum_pos) (auto simp: form_weight_pos assms)
qed

lemma calculate_form_score_sums:
  assumes "dict_get (recent_finishes h) [5, 5, 5] = xs" "xs \<noteq> []"
  shows "calculate_form_score h =
     (\<Sum>i<length xs. position_score (rev xs ! i) * form_weight (length xs) i) /
     (\<Sum>i<length xs. form_weight (length xs) i)"
  using assms total_weight_pos [of "length xs"]
  by (simp add: calculate_form_score_def Let_def form_loop_sums)

text \<open>
  C5, as amended. Let \<open>xs\<close> be the recent finishes of a horse (\<open>[5, 5, 5]\<close> when the key is
  absent). When \<open>xs\<close> is empty the form score is 0.5; otherwise it is the average of the
  per-finish scores max(0, (10 - finish) / 10), the finish at position \<open>i\<close> from the most
  recent weighted by (i + 1) / total_races. The score is never negative, and it is at most 1
  when no finish is negative. (A negative finish scores above 1: the source bounds the
  per-finish score from below only.)
\<close>

theorem form_score_weighted_average:
  fixes h :: horse_data
  defines "xs \<equiv> dict_get (recent_finishes h) [5, 5, 5]"
  shows "(xs = [] \<longrightarrow> calculate_form_score h = 0.5) \<and>
     (xs \<noteq> [] \<longrightarrow> calculate_form_score h =
        (\<Sum>i<length xs. position_score (rev xs ! i) * form_weight (length xs) i) /
        (\<Sum>i<length xs. form_weight (length xs) i)) \<and>
     0 \<le> calculate_form_score h \<and>
     ((\<forall>f\<in>set xs. 0 \<le> f) \<longrightarrow> calculate_form_score h \<le> 1)"
proof (cases "xs = []")
  case True
  then show ?thesis
    by (simp add: calculate_form_score_def xs_def)
next
  case False
  let ?n = "length xs"
  let ?W = "\<Sum>i<?n. form_weight ?n i"
  let ?S = "\<Sum>i<?n. position_score (rev xs ! i) * form_weight ?n i"
  have n: "0 < ?n" using False by simp
  have eq: "calculate_form_score h = ?S / ?W"
    using calculate_form_score_sums [of h xs] False by (simp add: xs_def)
  have W: "0 < ?W" using total_weight_pos [OF n] .
  have S0: "0 \<le> ?S"
    by (intro sum_nonneg mult_nonneg_nonneg position_score_nonneg less_imp_le form_weight_pos n)
  have S1: "?S \<le> ?W" if all: "\<forall>f\<in>set xs. 0 \<le> f"
  proof (rule sum_mono)
    fix i assume "i \<in> {..<?n}"
    then have "rev xs ! i \<in> set xs"
      by (metis length_rev lessThan_iff nth_mem set_rev)
    with all have "position_score (rev xs ! i) \<le> 1"
      by (simp add: position_score_le_one)
    then show "position_score (rev xs ! i) * form_weight ?n i \<le> form_weight ?n i"
      using form_weight_pos [OF n, of i] by (simp add: mult_le_cancel_right1)
  qed
  show ?thesis
    using False eq W S0 S1 by (simp add: divide_le_eq)
qed

text \<open>
  The example of the specification: finishes 2, 1, 3 (oldest first) satisfy the hypothesis
  and score 49/60, about 0.8.
\<close>

theorem form_score_weighted_average_witness:
  "(0::int) \<le> 2 \<and> (0::int) \<le> 1 \<and> (0::int) \<le> 3 \<and>
   calculate_form_score (no_fields\<lparr>recent_finishes := Some [2, 1, 3]\<rparr>) = 49 / 60 \<and>
   0 \<le> calculate_form_score (no_fields\<lparr>recent_finishes := Some [2, 1, 3]\<rparr>) \<and>
   calculate_form_score (no_fields\<lparr>recent_finishes := Some [2, 1, 3]\<rparr>) \<le> 1"
  using form_score_weighted_average [of "no_fields\<lparr>recent_finishes := Some [2, 1, 3]\<rparr>"]
  by (simp add: no_fields_def position_score_def form_weight_def
      lessThan_nat_numeral lessThan_Suc)

text \<open>
  C5 as stated fails: a single recent finish of -10, which the entry form accepts, gives
  the form score 2.
\<close>

theorem form_score_above_one:
  "calculate_form_score (no_fields\<lparr>recent_finishes := Some [- 10]\<rparr>) = 2 \<and>
   \<not> calculate_form_score (no_fields\<lparr>recent_finishes := Some [- 10]\<rparr>) \<le> 1"
  by (simp add: calculate_form_score_def no_fields_def Let_def enumerate_eq_zip)

subsection \<open>The class score (C6)\<close>

lemma class_hierarchy_ordinal: "dict_get (class_hierarchy c) 2 = class_ordinal c"
  by (simp add: class_hierarchy_def class_ordinal_def dict_get_def)

text \<open>
  C6. The class score is one of 0.8, 1.0 and 1.2: it is 1.2 when the ordinal of the horse's
  class exceeds that of the race's class, 1.0 when the two are equal and 0.8 otherwise,
  where an unknown or absent class ranks as claiming (2).
\<close>

theorem class_score_three_values:
  "calculate_class_score h \<in> {0.8, 1.0, 1.2} \<and>
   calculate_class_score h =
     (let horse_level = class_ordinal (dict_get (horse_class h) ''claiming'');
          race_level = class_ordinal (dict_get (race_class h) ''claiming'')
      in if race_level < horse_level then 1.2
         else if horse_level = race_level then 1.0 else 0.8)"
  by (simp add: calculate_class_score_def class_hierarchy_ordinal Let_def)

subsection \<open>Missing fields (C7)\<close>




subsection \<open>A zero third-from-last speed figure (C8)\<close>

text \<open>
  C8. The source divides by the third-from-last recent figure with no guard. With the
  recent figures 0, 84, 85 the speed score raises \<open>ZeroDivisionError\<close>, and so do the
  composite score and the prediction of a race that holds such a horse: no neutral trend
  factor is substituted.
\<close>

theorem speed_score_zero_third_raises:
  "calculate_speed_score init (no_fields\<lparr>recent_beyer_figures := Some [0, 84, 85]\<rparr>)
     = Inl ZeroDivisionError \<and>
   calculate_overall_score init (no_fields\<lparr>recent_beyer_figures := Some [0, 84, 85]\<rparr>)
     = Inl ZeroDivisionError \<and>
   predict_race sort_values init
     [no_fields\<lparr>recent_beyer_figures := Some [0, 84, 85]\<rparr>, no_fields]
     = Inl ZeroDivisionError"
proof -
  let ?h = "no_fields\<lparr>recent_beyer_figures := Some [0, 84, 85]\<rparr>"
  have speed: "calculate_speed_score init ?h = Inl ZeroDivisionError"
    by (simp add: calculate_speed_score_def no_fields_def py_index_def py_truediv_def Let_def)
  then have overall: "calculate_overall_score init ?h = Inl ZeroDivisionError"
    by (simp add: calculate_overall_score_def)
  then have "predict_race sort_values init [?h, no_fields] = Inl ZeroDivisionError"
    by (simp add: predict_race_def predict_row_def)
  with speed overall show ?thesis by simp
qed

subsection \<open>The post position score (C10)\<close>

lemma large_field_weights_eq:
  "large_field_weights i =
     (if 1 \<le> i \<and> i \<le> 20 then Some (max 0.5 (1.0 - real_of_int (i - 6) * 0.05)) else None)"
  unfolding large_field_weights_def
  by (simp add: map_of_map_restrict restrict_map_def)

lemma small_table_range:
  "post_position_weights init p = Some w \<Longrightarrow> 0.65 \<le> w \<and> w \<le> 1.0"
  by (simp add: init_def split: if_splits)

lemma small_table_dom:
  "post_position_weights init p = None \<longleftrightarrow> \<not> (1 \<le> p \<and> p \<le> 15)"
  by (simp add: init_def) presburger

text \<open>
  C10, as amended. For any post position and field size the post position score lies in
  [0.5, 1.25]. It is 1.0 for a field of at most 6; for a field of 7 to 10 it is the table
  value, in [0.65, 1.0], for posts 1 to 15 and 0.90 for any other post; for a field above
  10 it is max(0.5, 1.0 - (post - 6) * 0.05) for posts 1 to 20 and 0.60 for any other post.
\<close>

theorem post_position_score_range:
  fixes h :: horse_data
  defines "post \<equiv> dict_get (post_position h) 5"
    and "fsize \<equiv> dict_get (field_size h) 10"
    and "s \<equiv> calculate_post_position_score init h"
  shows "0.5 \<le> s \<and> s \<le> 1.25 \<and>
     (fsize \<le> 6 \<longrightarrow> s = 1.0) \<and>
     (6 < fsize \<and> fsize \<le> 10 \<longrightarrow>
        (if 1 \<le> post \<and> post \<le> 15
         then post_position_weights init post = Some s \<and> 0.65 \<le> s \<and> s \<le> 1.0
         else s = 0.90)) \<and>
     (10 < fsize \<longrightarrow>
        (if 1 \<le> post \<and> post \<le> 20
         then s = max 0.5 (1.0 - real_of_int (post - 6) * 0.05)
         else s = 0.60))"
proof -
  have small: "fsize \<le> 6 \<Longrightarrow> s = 1.0"
    by (simp add: s_def fsize_def calculate_post_position_score_def Let_def)
  have mid_in: "post_position_weights init post = Some s \<and> 0.65 \<le> s \<and> s \<le> 1.0"
    if "6 < fsize" "fsize \<le> 10" "1 \<le> post \<and> post \<le> 15"
  proof -
    from that(3) obtain w where w: "post_position_weights init post = Some w"
      using small_table_dom [of post] by (cases "post_position_weights init post") auto
    with that(1,2) have "s = w"
      by (simp add: s_def fsize_def post_def calculate_post_position_score_def Let_def)
    with w small_table_range [OF w] show ?thesis by simp
  qed
  have mid_out: "s = 0.90" if "6 < fsize" "fsize \<le> 10" "\<not> (1 \<le> post \<and> post \<le> 15)"
  proof -
    from that(3) have "post_position_weights init post = None"
      using small_table_dom [of post] by simp
    with that(1,2) show ?thesis
      by (simp add: s_def fsize_def post_def calculate_post_position_score_def Let_def)
  qed
  have large: "s = (if 1 \<le> post \<and> post \<le> 20
         then max 0.5 (1.0 - real_of_int (post - 6) * 0.05) else 0.60)" if "10 < fsize"
    using that
    by (simp add: s_def fsize_def post_def calculate_post_position_score_def Let_def
        large_field_weights_eq)
  have lo: "0.5 \<le> s"
    using small mid_in mid_out large
    by (cases "fsize \<le> 6"; cases "fsize \<le> 10"; cases "1 \<le> post \<and> post \<le> 15";
        cases "1 \<le> post \<and> post \<le> 20") (auto simp: max_def)
  have hi: "s \<le> 1.25"
  proof (cases "10 < fsize")
    case True
    then show ?thesis using large by (auto simp: max_def)
  next
    case False
    then show ?thesis using small mid_in mid_out
      by (cases "fsize \<le> 6"; cases "1 \<le> post \<and> post \<le> 15") auto
  qed
  show ?thesis using lo hi small mid_in mid_out large by auto
qed

text \<open>Post 3 in a field of 14: the large-field branch, with the score 1.15.\<close>

theorem post_position_score_range_witness:
  "(10::int) < 14 \<and> (1::int) \<le> 3 \<and> (3::int) \<le> 20 \<and>
   calculate_post_position_score init
     (no_fields\<lparr>post_position := Some 3, field_size := Some 14\<rparr>) = 1.15"
  using post_position_score_range
    [of "no_fields\<lparr>post_position := Some 3, field_size := Some 14\<rparr>"]
  by (simp add: no_fields_def)

text \<open>
  C10 as stated fails: post 1 in a field of 12 scores 1.25, above the claimed bound 1.0.
\<close>

theorem post_position_score_above_one:
  "calculate_post_position_score init
     (no_fields\<lparr>post_position := Some 1, field_size := Some 12\<rparr>) = 1.25 \<and>
   \<not> calculate_post_position_score init
     (no_fields\<lparr>post_position := Some 1, field_size := Some 12\<rparr>) \<le> 1.0"
  by (simp add: calculate_post_position_score_def no_fields_def large_field_weights_eq)

subsection \<open>The speed score (C4)\<close>

lemma track_adj_pos: "0 < dict_get (track_variants init c) (1.0::real)"
  by (simp add: init_def dict_get_def)

lemma py_index_from_end:
  "0 < k \<Longrightarrow> k \<le> length xs \<Longrightarrow> py_index xs (- int k) = Inr (xs ! (length xs - k))"
  by (simp add: py_index_def nat_diff_distrib' of_nat_diff)

lemma speed_score_unfold:
  "calculate_speed_score self h =
    (case trend_factor_of (recent_speeds_of h) of
       Inl e \<Rightarrow> Inl e
     | Inr tf \<Rightarrow>
         Inr (min (real_of_int (dict_get (beyer_speed_figure h) 70) *
                   dict_get (track_variants self (dict_get (track_condition h) ''fast'')) 1.0 *
                   (if dict_get (race_distance h) 6.0 \<le> 6.5 then 1.0 else 0.95) * tf) 120))"
proof -
  define rs where "rs = recent_speeds_of h"
  have idx: "py_index rs (- 1) = Inr (rs ! (length rs - 1))"
       "py_index rs (- 3) = Inr (rs ! (length rs - 3))" if "3 \<le> length rs"
    using that py_index_from_end [of 1 rs] py_index_from_end [of 3 rs] by simp_all
  have rs: "dict_get (recent_beyer_figures h) [dict_get (beyer_speed_figure h) 70] = rs"
    by (simp add: rs_def recent_speeds_of_def)
  show ?thesis
    unfolding calculate_speed_score_def Let_def rs rs_def [symmetric] trend_factor_of_def
    by (cases "3 \<le> length rs") (simp_all add: idx py_truediv_def)
qed

lemma trend_defined_factor: "trend_defined h \<longleftrightarrow> (\<exists>tf. trend_factor_of (recent_speeds_of h) = Inr tf)"
  by (cases "3 \<le> length (recent_speeds_of h)") (simp_all add: trend_defined_def trend_factor_of_def)

lemma speed_score_returns_iff:
  "(\<exists>s. calculate_speed_score self h = Inr s) \<longleftrightarrow> trend_defined h"
  unfolding speed_score_unfold trend_defined_factor by (auto split: sum.splits)

text \<open>
  C4, as amended. For every horse record whose trend is defined (fewer than three recent
  figures, or a third-from-last figure other than 0), \<open>calculate_speed_score\<close> returns a
  value, and the value is at most 120; it is non-negative when the speed figure and the
  recent figures are non-negative. In the model the value is a real number, so it is finite.
\<close>

theorem speed_score_bounds:
  assumes third: "trend_defined h"
  shows "\<exists>s. calculate_speed_score init h = Inr s \<and> s \<le> 120 \<and>
             (0 \<le> dict_get (beyer_speed_figure h) 70 \<and> (\<forall>f\<in>set (recent_speeds_of h). 0 \<le> f)
                \<longrightarrow> 0 \<le> s)"
proof -
  define base where "base = dict_get (beyer_speed_figure h) 70"
  define rs where "rs = recent_speeds_of h"
  from third obtain tf where tf: "trend_factor_of rs = Inr tf"
    unfolding trend_defined_factor rs_def by blast
  define adj where
    "adj = dict_get (track_variants init (dict_get (track_condition h) ''fast'')) (1.0::real)"
  define df where
    "df = (if dict_get (race_distance h) 6.0 \<le> (6.5::real) then 1.0 else (0.95::real))"
  define s where "s = min (real_of_int base * adj * df * tf) 120"
  have eq: "calculate_speed_score init h = Inr s"
    unfolding speed_score_unfold
    using tf by (simp add: s_def adj_def df_def base_def rs_def)
  have le: "s \<le> 120" by (simp add: s_def)
  have nonneg: "0 \<le> s" if b: "0 \<le> base" and fs: "\<forall>f\<in>set rs. 0 \<le> f"
  proof -
    have adj: "0 < adj" unfolding adj_def by (rule track_adj_pos)
    have df: "0 < df" by (simp add: df_def)
    have "0 \<le> tf"
    proof (cases "3 \<le> length rs")
      case False
      with tf show ?thesis by (simp add: trend_factor_of_def)
    next
      case True
      let ?t = "rs ! (length rs - 3)" and ?l = "rs ! (length rs - 1)"
      from True third have nz: "?t \<noteq> 0" by (simp add: trend_defined_def rs_def)
      from True have "?t \<in> set rs" "?l \<in> set rs" by simp_all
      with fs nz have t: "0 < ?t" and l: "0 \<le> ?l" by force+
      from True nz tf have tfe: "tf = 1 + real_of_int (?l - ?t) / real_of_int ?t * 0.5"
        by (simp add: trend_factor_of_def)
      have "- 1 \<le> real_of_int (?l - ?t) / real_of_int ?t"
        using t l by (simp add: le_divide_eq)
      then show ?thesis unfolding tfe by simp
    qed
    then have "0 \<le> real_of_int base * adj * df * tf"
      using b adj df by simp
    then show ?thesis by (simp add: s_def)
  qed
  from eq le nonneg show ?thesis unfolding base_def rs_def by blast
qed

text \<open>
  The example of the specification: speed figure 85, a distance of 8.5 furlongs and the
  recent figures 82, 84, 85 give 53941/656, about 82.23.
\<close>

theorem speed_score_bounds_witness:
  "trend_defined
     (no_fields\<lparr>beyer_speed_figure := Some 85, recent_beyer_figures := Some [82, 84, 85],
        race_distance := Some 8.5\<rparr>) \<and>
   calculate_speed_score init
     (no_fields\<lparr>beyer_speed_figure := Some 85, recent_beyer_figures := Some [82, 84, 85],
        race_distance := Some 8.5\<rparr>) = Inr (53941 / 656) \<and>
   (53941 / 656 :: real) \<le> 120 \<and> (0::real) \<le> 53941 / 656"
proof -
  let ?h = "no_fields\<lparr>beyer_speed_figure := Some 85, recent_beyer_figures := Some [82, 84, 85],
        race_distance := Some 8.5\<rparr>"
  have td: "trend_defined ?h"
    by (simp add: trend_defined_def recent_speeds_of_def no_fields_def)
  have val: "calculate_speed_score init ?h = Inr (53941 / 656)"
    by (simp add: speed_score_unfold trend_factor_of_def recent_speeds_of_def no_fields_def
        init_def)
  from speed_score_bounds [OF td] td val show ?thesis by simp
qed

text \<open>
  C4 as stated fails: with the speed figure 85 and the recent figures -20, 60, 70, which
  the entry form accepts, the speed score is -106.25.
\<close>

theorem speed_score_negative:
  "calculate_speed_score init
     (no_fields\<lparr>beyer_speed_figure := Some 85, recent_beyer_figures := Some [- 20, 60, 70]\<rparr>)
     = Inr (- 106.25) \<and>
   \<not> (0::real) \<le> - 106.25"
  by (simp add: speed_score_unfold trend_factor_of_def recent_speeds_of_def no_fields_def
      init_def)

subsection \<open>Rounding, shares and sorting\<close>

lemma round_half_even_error: "\<bar>real_of_int (round_half_even x) - x\<bar> \<le> 1 / 2"
proof -
  have "real_of_int \<lfloor>x\<rfloor> \<le> x" "x < real_of_int \<lfloor>x\<rfloor> + 1" by linarith+
  then show ?thesis
    unfolding round_half_even_def Let_def by (auto simp: abs_le_iff)
qed

lemma py_round_1_error: "\<bar>py_round x 1 - x\<bar> \<le> 0.05"
proof -
  have "\<bar>real_of_int (round_half_even (x * 10)) - x * 10\<bar> \<le> 1 / 2"
    by (rule round_half_even_error)
  then show ?thesis
    unfolding py_round_def by (simp add: abs_le_iff field_simps)
qed

lemma sum_list_round_error:
  "\<bar>(\<Sum>x\<leftarrow>xs. py_round (f x) 1) - (\<Sum>x\<leftarrow>xs. f x)\<bar> \<le> 0.05 * real (length xs)"
proof (induction xs)
  case Nil
  then show ?case by simp
next
  case (Cons a xs)
  have a: "\<bar>py_round (f a) 1 - f a\<bar> \<le> 0.05" by (rule py_round_1_error)
  have "\<bar>(py_round (f a) 1 + (\<Sum>x\<leftarrow>xs. py_round (f x) 1)) - (f a + (\<Sum>x\<leftarrow>xs. f x))\<bar>
      \<le> \<bar>py_round (f a) 1 - f a\<bar> + \<bar>(\<Sum>x\<leftarrow>xs. py_round (f x) 1) - (\<Sum>x\<leftarrow>xs. f x)\<bar>"
    by linarith
  also have "\<dots> \<le> 0.05 + 0.05 * real (length xs)"
    using a Cons.IH by linarith
  finally show ?case by (simp add: algebra_simps)
qed

lemma sum_list_exp_pos:
  assumes "xs \<noteq> []"
  shows "0 < (\<Sum>s\<leftarrow>xs. exp (s / 10 :: real))"
proof (cases xs)
  case Nil
  with assms show ?thesis by simp
next
  case (Cons a ys)
  have "0 \<le> (\<Sum>s\<leftarrow>ys. exp (s / 10))"
    by (rule sum_list_nonneg) auto
  then show ?thesis
    unfolding Cons by (simp add: add_pos_nonneg)
qed

lemma sum_list_shares:
  fixes g :: "'a \<Rightarrow> real"
  assumes "(\<Sum>x\<leftarrow>xs. g x) \<noteq> 0"
  shows "(\<Sum>x\<leftarrow>xs. g x / (\<Sum>y\<leftarrow>xs. g y) * 100) = 100"
proof -
  define S where "S = (\<Sum>y\<leftarrow>xs. g y)"
  have "(\<Sum>x\<leftarrow>xs. g x / S * 100) = (\<Sum>x\<leftarrow>xs. g x * (100 / S))"
    by simp
  also have "\<dots> = (\<Sum>x\<leftarrow>xs. g x) * (100 / S)"
    by (rule sum_list_mult_const)
  also have "\<dots> = 100"
    using assms by (simp add: S_def)
  finally show ?thesis by (simp add: S_def)
qed



lemma win_share_sum:
  assumes "scores \<noteq> []"
  shows "(\<Sum>s\<leftarrow>scores. win_share scores s * 100) = 100"
proof -
  have "(\<Sum>s\<leftarrow>scores. exp (s / 10)) \<noteq> 0"
    using sum_list_exp_pos [OF assms] by simp
  from sum_list_shares [of "\<lambda>s. exp (s / 10)" scores, OF this]
  show ?thesis by (simp add: win_share_def)
qed

lemma final_percent_sum:
  assumes "scores \<noteq> []"
  shows "\<bar>(\<Sum>s\<leftarrow>scores. final_percent scores s) - 100\<bar> \<le> 0.05 * real (length scores)"
proof -
  define total where "total = (\<Sum>t\<leftarrow>scores. rounded_percent scores t)"
  show ?thesis
  proof (cases "0 < total")
    case True
    then have fin: "final_percent scores = (\<lambda>s. py_round (rounded_percent scores s / total * 100) 1)"
      by (simp add: final_percent_def total_def fun_eq_iff)
    have "(\<Sum>s\<leftarrow>scores. rounded_percent scores s / total * 100) = 100"
      unfolding total_def
      by (rule sum_list_shares) (use True in \<open>simp add: total_def\<close>)
    with sum_list_round_error [of "\<lambda>s. rounded_percent scores s / total * 100" scores]
    show ?thesis unfolding fin by simp
  next
    case False
    then have fin: "final_percent scores = (\<lambda>s. py_round (win_share scores s * 100) 1)"
      by (simp add: final_percent_def total_def fun_eq_iff rounded_percent_def)
    from sum_list_round_error [of "\<lambda>s. win_share scores s * 100" scores]
      win_share_sum [OF assms]
    show ?thesis unfolding fin by simp
  qed
qed

lemma sort_stable_desc_contract: "sorts_descending sort_stable_desc"
proof -
  have "sorted_wrt (\<lambda>a b. key b \<le> key a) (sort_key (\<lambda>r. - key r) rows)"
    for key :: "prediction \<Rightarrow> real" and rows
    using sorted_sort_key [of "\<lambda>r. - key r" rows] by (simp add: sorted_map)
  then show ?thesis
    by (simp add: sorts_descending_def sort_stable_desc_def)
qed

lemma sort_ties_reversed_contract: "sorts_descending sort_ties_reversed"
proof -
  have "sorted_wrt (\<lambda>a b. key b \<le> key a) (rev (sort_key key rows))"
    for key :: "prediction \<Rightarrow> real" and rows
    using sorted_sort_key [of key rows] by (simp add: sorted_map sorted_wrt_rev)
  then show ?thesis
    by (simp add: sorts_descending_def sort_ties_reversed_def)
qed

lemma map_err_Inr_iff: "map_err f xs = Inr ys \<longleftrightarrow> map f xs = map Inr ys"
proof (induction xs arbitrary: ys)
  case Nil
  then show ?case by auto
next
  case (Cons x xs)
  show ?case
  proof (cases "f x")
    case (Inl e)
    then show ?thesis by (cases ys) auto
  next
    case (Inr y)
    show ?thesis
    proof (cases "map_err f xs")
      case (Inl e)
      with Inr Cons.IH show ?thesis by (cases ys) auto
    next
      case r: (Inr zs)
      with Inr Cons.IH [of zs] Cons.IH show ?thesis by (cases ys) auto
    qed
  qed
qed

lemma map_err_total:
  assumes "\<forall>x\<in>set xs. \<exists>y. f x = Inr y"
  shows "\<exists>ys. map_err f xs = Inr ys"
  using assms by (induction xs) auto

lemma overall_returns_iff:
  "(\<exists>s. calculate_overall_score init h = Inr s) \<longleftrightarrow> trend_defined h"
  unfolding overall_score_init speed_score_returns_iff [of init h, symmetric]
  by (auto split: sum.splits)

subsection \<open>The rows of a prediction\<close>

lemma predict_row_init:
  assumes scores: "map (calculate_overall_score init) hs = map Inr scores"
    and s: "calculate_overall_score init h = Inr s"
  shows "\<exists>r. predict_row init hs h = Inr r \<and>
     Horse r = dict_get (name h) ''Unknown'' \<and> Score r = py_round s 2 \<and>
     Win_Probability r = rounded_percent scores s"
proof -
  from s obtain sp where sp: "calculate_speed_score init h = Inr sp"
    unfolding overall_score_init by (auto split: sum.splits)
  have me: "map_err (calculate_overall_score init) hs = Inr scores"
    using scores by (simp add: map_err_Inr_iff)
  have prob: "score_to_probability init s hs = Inr (win_share scores s)"
    by (simp add: score_to_probability_def me win_share_def)
  show ?thesis
    by (simp add: predict_row_def s prob sp rounded_percent_def)
qed

lemma predict_rows_init:
  assumes scores: "map (calculate_overall_score init) hs = map Inr scores"
    and sub: "map (calculate_overall_score init) hs' = map Inr scores'"
  shows "\<exists>results. map_err (predict_row init hs) hs' = Inr results \<and>
     map (\<lambda>r. (Horse r, Score r, Win_Probability r)) results =
     map2 (\<lambda>h s. (dict_get (name h) ''Unknown'', py_round s 2, rounded_percent scores s))
       hs' scores'"
  using sub
proof (induction hs' arbitrary: scores')
  case Nil
  then show ?case by simp
next
  case (Cons h hs')
  from Cons.prems obtain s ss where ss: "scores' = s # ss"
    and s: "calculate_overall_score init h = Inr s"
    and rest: "map (calculate_overall_score init) hs' = map Inr ss"
    by (cases scores') auto
  from predict_row_init [OF scores s] obtain r where r: "predict_row init hs h = Inr r"
    "Horse r = dict_get (name h) ''Unknown''" "Score r = py_round s 2"
    "Win_Probability r = rounded_percent scores s" by blast
  from Cons.IH [OF rest] obtain results where
    res: "map_err (predict_row init hs) hs' = Inr results"
    "map (\<lambda>r. (Horse r, Score r, Win_Probability r)) results =
     map2 (\<lambda>h s. (dict_get (name h) ''Unknown'', py_round s 2, rounded_percent scores s)) hs' ss"
    by blast
  show ?case
    by (rule exI [of _ "r # results"]) (simp add: r res ss)
qed

lemma map2_third:
  assumes "length xs = length ys"
  shows "map (\<lambda>c. snd (snd c)) (map2 (\<lambda>x y. (a x, b y, c y)) xs ys) = map c ys"
  using assms by (induction xs ys rule: list_induct2) simp_all

lemma sum_list_perm:
  fixes f :: "'a \<Rightarrow> real"
  assumes "mset xs = mset ys"
  shows "sum_list (map f xs) = sum_list (map f ys)"
proof -
  have "sum_mset (image_mset f (mset xs)) = sum_mset (image_mset f (mset ys))"
    using assms by simp
  then show ?thesis by (simp add: sum_mset_sum_list [symmetric] del: sum_mset_sum_list)
qed

lemma predict_race_rows:
  assumes sv: "sorts_descending sort_values" and ne: "hs \<noteq> []"
    and td: "\<forall>h\<in>set hs. trend_defined h"
  shows "\<exists>rows scores results. predict_race sort_values init hs = Inr rows \<and>
     map (calculate_overall_score init) hs = map Inr scores \<and>
     mset (map (\<lambda>r. (Horse r, Score r, Win_Probability r)) rows) =
     mset (map2 (\<lambda>h s. (dict_get (name h) ''Unknown'', py_round s 2, final_percent scores s))
       hs scores) \<and>
     sorted_wrt (\<lambda>a b. Score b \<le> Score a) rows \<and>
     map (\<lambda>r. (Horse r, Score r)) results =
       map2 (\<lambda>h s. (dict_get (name h) ''Unknown'', py_round s 2)) hs scores \<and>
     map (\<lambda>r. (Horse r, Score r)) rows =
       map (\<lambda>r. (Horse r, Score r)) (sort_values Score results)"
proof -
  from td have "\<forall>h\<in>set hs. \<exists>s. calculate_overall_score init h = Inr s"
    by (simp add: overall_returns_iff)
  from map_err_total [OF this] obtain scores
    where scores: "map (calculate_overall_score init) hs = map Inr scores"
    by (auto simp: map_err_Inr_iff)
  then have len: "length scores = length hs"
    by (metis length_map)
  from predict_rows_init [OF scores scores] obtain results where
    res: "map_err (predict_row init hs) hs = Inr results"
    and cols: "map (\<lambda>r. (Horse r, Score r, Win_Probability r)) results =
      map2 (\<lambda>h s. (dict_get (name h) ''Unknown'', py_round s 2, rounded_percent scores s))
        hs scores"
    by blast
  have "length results = length hs"
    using arg_cong [OF cols, of length] len by simp
  with ne have rne: "results \<noteq> []" by auto
  define df where "df = sort_values Score results"
  have perm: "mset df = mset results" and sorted: "sorted_wrt (\<lambda>a b. Score b \<le> Score a) df"
    using sv by (simp_all add: sorts_descending_def df_def)
  define total where "total = sum_list (map Win_Probability df)"
  have "total = sum_list (map Win_Probability results)"
    unfolding total_def by (rule sum_list_perm [OF perm])
  also have "map Win_Probability results = map (\<lambda>c. snd (snd c)) (map (\<lambda>r. (Horse r, Score r, Win_Probability r)) results)"
    by simp
  also have "\<dots> = map (rounded_percent scores) scores"
    unfolding cols using len by (intro map2_third) simp
  finally have total: "total = (\<Sum>t\<leftarrow>scores. rounded_percent scores t)" .
  define fin where "fin = (\<lambda>r::prediction. if 0 < total
      then r\<lparr>Win_Probability := py_round (Win_Probability r / total * 100) 1\<rparr> else r)"
  define rows where "rows = map fin df"
  have race: "predict_race sort_values init hs = Inr rows"
    by (simp add: predict_race_def res rne Let_def df_def [symmetric] total_def [symmetric]
        rows_def fin_def)
  have "sorted_wrt (\<lambda>a b. Score b \<le> Score a) rows"
    using sorted by (simp add: rows_def sorted_wrt_map fin_def)
  moreover have "mset (map (\<lambda>r. (Horse r, Score r, Win_Probability r)) rows) =
     mset (map2 (\<lambda>h s. (dict_get (name h) ''Unknown'', py_round s 2, final_percent scores s))
       hs scores)"
  proof -
    let ?g = "\<lambda>r. (Horse r, Score r, Win_Probability r)"
    let ?G = "\<lambda>(n, sc, w). (n :: string, sc :: real,
        if 0 < total then py_round (w / total * 100) 1 else w)"
    have gf: "?g (fin r) = ?G (?g r)" for r by (simp add: fin_def)
    have "mset (map ?g rows) = image_mset (\<lambda>r. ?G (?g r)) (mset df)"
      by (simp add: rows_def gf comp_def)
    also have "\<dots> = mset (map ?G (map ?g results))"
      by (simp add: perm comp_def)
    also have "map ?G (map ?g results) =
       map2 (\<lambda>h s. (dict_get (name h) ''Unknown'', py_round s 2, final_percent scores s))
         hs scores"
      unfolding cols by (auto simp: final_percent_def total [symmetric] Let_def)
    finally show ?thesis .
  qed
  moreover have "map (\<lambda>r. (Horse r, Score r)) rows = map (\<lambda>r. (Horse r, Score r)) df"
    by (simp add: rows_def fin_def comp_def)
  moreover have "map (\<lambda>r. (Horse r, Score r)) results =
      map2 (\<lambda>h s. (dict_get (name h) ''Unknown'', py_round s 2)) hs scores"
  proof -
    have "map (\<lambda>r. (Horse r, Score r)) results =
        map (\<lambda>c. (fst c, fst (snd c))) (map (\<lambda>r. (Horse r, Score r, Win_Probability r)) results)"
      by simp
    also have "\<dots> = map2 (\<lambda>h s. (dict_get (name h) ''Unknown'', py_round s 2)) hs scores"
      unfolding cols by auto
    finally show ?thesis .
  qed
  ultimately show ?thesis using race scores unfolding df_def by blast
qed

subsection \<open>Races of horses with default scores\<close>

lemma name_irrelevant:
  "calculate_overall_score self (h\<lparr>name := n\<rparr>) = calculate_overall_score self h"
  "calculate_speed_score self (h\<lparr>name := n\<rparr>) = calculate_speed_score self h"
  "calculate_form_score (h\<lparr>name := n\<rparr>) = calculate_form_score h"
  "calculate_class_score (h\<lparr>name := n\<rparr>) = calculate_class_score h"
  "calculate_connection_score (h\<lparr>name := n\<rparr>) = calculate_connection_score h"
  "calculate_post_position_score self (h\<lparr>name := n\<rparr>) = calculate_post_position_score self h"
proof -
  show 1: "calculate_speed_score self (h\<lparr>name := n\<rparr>) = calculate_speed_score self h"
    by (simp add: calculate_speed_score_def Let_def)
  show 2: "calculate_form_score (h\<lparr>name := n\<rparr>) = calculate_form_score h"
    by (simp add: calculate_form_score_def Let_def)
  show 3: "calculate_class_score (h\<lparr>name := n\<rparr>) = calculate_class_score h"
    by (simp add: calculate_class_score_def Let_def)
  show 4: "calculate_connection_score (h\<lparr>name := n\<rparr>) = calculate_connection_score h"
    by (simp add: calculate_connection_score_def Let_def)
  show 5: "calculate_post_position_score self (h\<lparr>name := n\<rparr>) = calculate_post_position_score self h"
    by (simp add: calculate_post_position_score_def Let_def)
  show "calculate_overall_score self (h\<lparr>name := n\<rparr>) = calculate_overall_score self h"
    by (simp add: calculate_overall_score_def 1 2 3 4 5)
qed

lemma win_share_equal:
  assumes "scores \<noteq> []" "\<forall>t\<in>set scores. t = c"
  shows "win_share scores c = 1 / real (length scores)"
proof -
  from assms(2) have "scores = replicate (length scores) c"
    by (simp add: replicate_length_same)
  then have "(\<Sum>t\<leftarrow>scores. exp (t / 10)) = real (length scores) * exp (c / 10)"
    by (metis sum_list_replicate map_replicate)
  with assms(1) show ?thesis by (simp add: win_share_def)
qed

lemma default_predict_row:
  assumes "map (calculate_overall_score init) hs = map Inr scores"
    and "win_share scores 63.22 = 1 / k"
  shows "predict_row init hs (no_fields\<lparr>name := n\<rparr>) =
     Inr (default_row (dict_get n ''Unknown'') (py_round (100 / k) 1))"
proof -
  have me: "map_err (calculate_overall_score init) hs = Inr scores"
    using assms by (simp add: map_err_Inr_iff)
  have prob: "score_to_probability init 63.22 hs = Inr (1 / k)"
    using assms(2) by (simp add: score_to_probability_def me win_share_def)
  have "predict_row init hs (no_fields\<lparr>name := n\<rparr>) =
     Inr \<lparr> Horse = dict_get n ''Unknown'', Score = py_round 63.22 2,
       Win_Probability = py_round (1 / k * 100) 1, Beyer_Figure = py_round 70 1,
       Form_Score = py_round 0.5 3, Class_Score = py_round 1.0 3,
       Jockey_Score = py_round 0.5 3, Trainer_Score = py_round 0.58 3,
       Post_Advantage = py_round 0.97 3 \<rparr>"
    unfolding predict_row_def name_irrelevant no_fields_overall no_fields_scores
      bind_err_simps prob fst_conv snd_conv
    by (simp add: no_fields_def)
  also have "py_round 63.22 2 = 63.22"
    unfolding py_round_def by (simp add: round_half_even_def Let_def)
  also have "py_round 70 1 = 70"
    unfolding py_round_def by (simp add: round_half_even_def Let_def)
  also have "py_round 0.5 3 = 0.5"
    unfolding py_round_def by (simp add: round_half_even_def Let_def)
  also have "py_round 1.0 3 = 1"
    unfolding py_round_def by (simp add: round_half_even_def Let_def)
  also have "py_round 0.58 3 = 0.58"
    unfolding py_round_def by (simp add: round_half_even_def Let_def)
  also have "py_round 0.97 3 = 0.97"
    unfolding py_round_def by (simp add: round_half_even_def Let_def)
  also have "1 / k * 100 = 100 / k" by simp
  finally show ?thesis by (simp add: default_row_def)
qed

lemma renormalised_values:
  "py_round (100 / 2) 1 = 50" "py_round (50 / (50 + 50) * 100) 1 = 50"
  "py_round (100 / 6) 1 = 16.7"
  "py_round (16.7 / (16.7 + 16.7 + 16.7 + 16.7 + 16.7 + 16.7) * 100) 1 = 16.7"
  unfolding py_round_def by (simp_all add: round_half_even_def Let_def)

lemma sort_stable_desc_keeps_ties: "keeps_ties sort_stable_desc"
proof -
  have "filter (\<lambda>r. key r = k) (sort_key (\<lambda>r. - key r) rows) = filter (\<lambda>r. key r = k) rows"
    for key :: "prediction \<Rightarrow> real" and rows k
    using sort_key_stable [of "\<lambda>r. - key r" "- k" rows] by simp
  then show ?thesis
    by (simp add: keeps_ties_def sort_stable_desc_def)
qed

lemma two_default_horses:
  "predict_race sort_stable_desc init
     [no_fields\<lparr>name := Some ''A''\<rparr>, no_fields\<lparr>name := Some ''B''\<rparr>] =
   Inr [default_row ''A'' 50, default_row ''B'' 50]"
proof -
  let ?hs = "[no_fields\<lparr>name := Some ''A''\<rparr>, no_fields\<lparr>name := Some ''B''\<rparr>]"
  have scores: "map (calculate_overall_score init) ?hs = map Inr [63.22, 63.22]"
    by (simp add: name_irrelevant no_fields_overall)
  have share: "win_share [63.22, 63.22] 63.22 = 1 / 2"
    using win_share_equal [of "[63.22, 63.22]" "63.22"] by simp
  note row = default_predict_row [OF scores share, unfolded renormalised_values]
  have rows: "map_err (predict_row init ?hs) ?hs = Inr [default_row ''A'' 50, default_row ''B'' 50]"
    by (simp add: row)
  have renorm: "py_round 50 (Suc 0) = 50"
    unfolding py_round_def by (simp add: round_half_even_def Let_def)
  show ?thesis
    unfolding predict_race_def rows bind_err_simps
    by (simp add: sort_stable_desc_def default_row_def renorm)
qed

lemma default_trend_defined: "trend_defined (no_fields\<lparr>name := n\<rparr>)"
  by (simp add: trend_defined_def recent_speeds_of_def no_fields_def)

lemma map2_first_third:
  assumes "length xs = length ys"
  shows "map (\<lambda>c. (fst c, snd (snd c))) (map2 (\<lambda>x y. (a x, b y, c y)) xs ys) =
     map2 (\<lambda>x y. (a x, c y)) xs ys"
  using assms by (induction xs ys rule: list_induct2) simp_all

lemma mset_map_image:
  assumes "mset (map g xs) = mset ys"
  shows "mset (map (\<lambda>x. F (g x)) xs) = mset (map F ys)"
proof -
  have "image_mset F (mset (map g xs)) = image_mset F (mset ys)"
    using assms by simp
  then show ?thesis by (simp add: multiset.map_comp comp_def)
qed

subsection \<open>The ranking (C3)\<close>




subsection \<open>The win probabilities (C2)\<close>




end
